theory Spec2Isabelle
  imports Main "HOL-Library.AList" "HOL-Library.Char_ord" "HOL-Library.List_Lexorder"
begin

section \<open>Terminology-controlled translation: the terminology manager\<close>

text \<open>
  A shallow embedding of \<^verbatim>\<open>tc_translate/terminology_manager.py\<close>.

  Conventions of the model.
  \<^item> Python strings are \<open>string\<close> (a list of \<open>char\<close>); the model interprets ASCII text:
    the word characters of the regular expression engine are the ASCII letters, the
    digits and the underscore, case folding maps \<open>A..Z\<close> to \<open>a..z\<close>, and whitespace is
    the ASCII whitespace. Python treats the letters, digits and spaces of Unicode alike;
    texts with such characters are outside the scope of the model.
  \<^item> A Python \<open>dict\<close> is an association list in insertion order; storing under a key
    that is present replaces the value in place (\<open>AList.update\<close>), as Python does.
  \<^item> A Python \<open>set\<close> is a list without duplicates; its iteration order is not specified
    by Python, so theorems speak about the members of lists obtained by iterating a set.
  \<^item> Exceptions are values of the type \<open>error\<close>; a function that can raise returns
    \<open>error + 'a\<close>.
  \<^item> \<^verbatim>\<open>convert_lang_code(_, to_google=True)\<close> lives in \<^verbatim>\<open>language_codes.py\<close>; the
    functions that call it take it as the parameter \<open>conv\<close>.
\<close>

subsection \<open>Characters and strings\<close>

definition ascii_upper :: string where
  "ascii_upper = ''ABCDEFGHIJKLMNOPQRSTUVWXYZ''"

definition ascii_lower :: string where
  "ascii_lower = ''abcdefghijklmnopqrstuvwxyz''"

definition ascii_digits :: string where
  "ascii_digits = ''0123456789''"

text \<open>\<^verbatim>\<open>\w\<close>: a letter, a digit or the underscore.\<close>

definition is_word_char :: "char \<Rightarrow> bool" where
  "is_word_char c = (c \<in> set (ascii_upper @ ascii_lower @ ascii_digits @ ''_''))"

text \<open>\<^verbatim>\<open>str.lower\<close> on one character.\<close>

definition lower_char :: "char \<Rightarrow> char" where
  "lower_char c = (case map_of (zip ascii_upper ascii_lower) c of Some l \<Rightarrow> l | None \<Rightarrow> c)"

definition lower :: "string \<Rightarrow> string" where
  "lower s = map lower_char s"

text \<open>The characters \<^verbatim>\<open>str.strip()\<close> removes: tab, line feed, vertical tab, form feed,
  carriage return, the separators \<open>0x1C..0x1F\<close> and the space.\<close>

definition is_space :: "char \<Rightarrow> bool" where
  "is_space c = (c \<in> set [CHR 0x09, CHR 0x0A, CHR 0x0B, CHR 0x0C, CHR 0x0D,
                           CHR 0x1C, CHR 0x1D, CHR 0x1E, CHR 0x1F, CHR 0x20])"

definition strip :: "string \<Rightarrow> string" where
  "strip s = rev (dropWhile is_space (rev (dropWhile is_space s)))"

text \<open>\<^verbatim>\<open>str(n)\<close> for an integer: decimal digits, with a minus sign when negative.\<close>

definition digit_char :: "nat \<Rightarrow> char" where
  "digit_char d = ascii_digits ! (d mod 10)"

function str_nat :: "nat \<Rightarrow> string" where
  "str_nat n = (if n < 10 then [digit_char n] else str_nat (n div 10) @ [digit_char (n mod 10)])"
  by pat_completeness auto
termination
  by (relation "measure (\<lambda>n. n)") auto

declare str_nat.simps [simp del]

definition str_int :: "int \<Rightarrow> string" where
  "str_int i = (if i < 0 then CHR ''-'' # str_nat (nat (- i)) else str_nat (nat i))"

subsection \<open>The regular expression \<^verbatim>\<open>\b<literal>\b\<close> with IGNORECASE\<close>

text \<open>\<^verbatim>\<open>\b\<close> holds between two positions when exactly one of the neighbouring
  characters is a word character; the outside of the string counts as a non-word
  character.\<close>

definition word_opt :: "char option \<Rightarrow> bool" where
  "word_opt c = (case c of None \<Rightarrow> False | Some x \<Rightarrow> is_word_char x)"

definition boundary :: "char option \<Rightarrow> char option \<Rightarrow> bool" where
  "boundary left right = (word_opt left \<noteq> word_opt right)"

definition first_char :: "string \<Rightarrow> char option" where
  "first_char s = (case s of [] \<Rightarrow> None | c # _ \<Rightarrow> Some c)"

text \<open>The escaped literal matches the start of \<open>s\<close>, ignoring case.\<close>

definition ci_prefix :: "string \<Rightarrow> string \<Rightarrow> bool" where
  "ci_prefix pat s = (length pat \<le> length s \<and> lower (take (length pat) s) = lower pat)"

text \<open>The last character before the position reached after consuming \<open>n\<close> characters of
  \<open>s\<close>, where \<open>prev\<close> is the character before \<open>s\<close>.\<close>

definition char_before :: "char option \<Rightarrow> string \<Rightarrow> nat \<Rightarrow> char option" where
  "char_before prev s n = (if n = 0 then prev else Some (s ! (n - 1)))"

text \<open>The whole pattern \<^verbatim>\<open>\b\<close> + \<^verbatim>\<open>re.escape(pat)\<close> + \<^verbatim>\<open>\b\<close> matches at the start of
  \<open>s\<close>, the character before \<open>s\<close> being \<open>prev\<close>. The pattern has no alternative, so there
  is at most one match at a position, of length \<open>length pat\<close>.\<close>

definition match_here :: "string \<Rightarrow> char option \<Rightarrow> string \<Rightarrow> bool" where
  "match_here pat prev s =
     (boundary prev (first_char s) \<and> ci_prefix pat s \<and>
      boundary (char_before prev s (length pat)) (first_char (drop (length pat) s)))"

text \<open>The scan of \<^verbatim>\<open>pattern.sub\<close>: the non-overlapping matches from left to right. The
  result lists, in order, the characters copied and the matches found (with the matched
  text, the argument of the replacement callback). After an empty match the scan copies
  one character and goes on.\<close>

datatype piece = Copied char | Matched string

function re_scan :: "string \<Rightarrow> char option \<Rightarrow> string \<Rightarrow> piece list" where
  "re_scan pat prev s =
     (if match_here pat prev s then
        (if pat = [] then
           Matched [] # (case s of [] \<Rightarrow> [] | c # cs \<Rightarrow> Copied c # re_scan pat (Some c) cs)
         else
           Matched (take (length pat) s) #
             re_scan pat (char_before prev s (length pat)) (drop (length pat) s))
      else
        (case s of [] \<Rightarrow> [] | c # cs \<Rightarrow> Copied c # re_scan pat (Some c) cs))"
  by pat_completeness auto
termination
proof (relation "measure (\<lambda>(pat, prev, s). length s)")
  fix pat :: string and prev :: "char option" and s :: string
  assume "match_here pat prev s" and "pat \<noteq> []"
  then have "0 < length pat" and "length pat \<le> length s"
    by (simp_all add: match_here_def ci_prefix_def)
  then have "length s - length pat < length s"
    by linarith
  then show "((pat, char_before prev s (length pat), drop (length pat) s), pat, prev, s)
             \<in> measure (\<lambda>(pat, prev, s). length s)"
    by simp
qed auto

declare re_scan.simps [simp del]




subsection \<open>Language codes\<close>

text \<open>Modelled from the spec: \<^verbatim>\<open>convert_lang_code\<close> of \<^verbatim>\<open>language_codes.py\<close>, which is not
  among the sources. The spec's \<open>normalize\<close>: a code of the 2-letter form is returned
  unchanged, a known 3-letter code is mapped to its 2-letter equivalent, anything else is
  returned unchanged. The static table is the parameter \<open>tbl\<close>.\<close>

definition convert_lang_code :: "(string \<times> string) list \<Rightarrow> string \<Rightarrow> string" where
  "convert_lang_code tbl code =
     (if length code = 2 then code
      else case map_of tbl code of Some c \<Rightarrow> c | None \<Rightarrow> code)"

subsection \<open>Terms, terminology sources and the store\<close>

text \<open>The dataclass \<^verbatim>\<open>Term\<close>; the fields carry the prefix \<open>t_\<close>.\<close>

record Term =
  t_id :: int
  t_term :: string
  t_translation :: string
  t_domain :: string
  t_language :: string
  t_google_lang_code :: string

text \<open>The exceptions raised: \<^verbatim>\<open>FileNotFoundError\<close> for a missing directory; while a row
  is read, the \<^verbatim>\<open>KeyError\<close> of a column the file does not have, the \<^verbatim>\<open>ValueError\<close> of
  \<^verbatim>\<open>int(nan)\<close>, the \<^verbatim>\<open>ValueError\<close> of \<^verbatim>\<open>int\<close> on a text that is no integer literal and
  the \<^verbatim>\<open>OverflowError\<close> of \<^verbatim>\<open>int\<close> on an infinite float; and the two \<^verbatim>\<open>ValueError\<close>s
  of \<^verbatim>\<open>preprocess_text\<close>, with the data their messages show.\<close>

datatype error =
    FileNotFoundError
  | KeyError string
  | ValueError_int_of_nan
  | ValueError_invalid_literal string
  | OverflowError_int_of_inf
  | ValueError_no_terminology string string "string list"
  | ValueError_domain_not_found string "string list"

text \<open>A cell of a terminology file as \<^verbatim>\<open>pandas.read_csv\<close> delivers it: the float
  \<^verbatim>\<open>nan\<close> for an empty cell, a text, an integer, or an infinite float (\<open>True\<close> for the
  negative one). Finite floats that are no integers are outside the model; an integral
  float in the id column converts like the integer.\<close>

datatype cell = NaN | StrCell string | IntCell int | InfCell bool

text \<open>A row: for each of the three columns its cell, or \<open>None\<close> when the file has no such
  column, so that \<^verbatim>\<open>row['id']\<close> raises \<^verbatim>\<open>KeyError\<close>.\<close>

record row =
  row_id :: "cell option"
  row_term :: "cell option"
  row_translation :: "cell option"

text \<open>\<^verbatim>\<open>int\<close> on a text: surrounding whitespace, an optional sign, decimal digits with
  single underscores between digits, and at most 4300 digits.\<close>

definition is_digit :: "char \<Rightarrow> bool" where
  "is_digit c = (c \<in> set ascii_digits)"

definition digit_val :: "char \<Rightarrow> nat" where
  "digit_val c = length (takeWhile (\<lambda>x. x \<noteq> c) ascii_digits)"

definition digits_value :: "string \<Rightarrow> nat" where
  "digits_value ds = foldl (\<lambda>a c. 10 * a + digit_val c) 0 ds"

definition int_body_ok :: "string \<Rightarrow> bool" where
  "int_body_ok b =
     (b \<noteq> [] \<and> is_digit (hd b) \<and> is_digit (last b) \<and>
      list_all (\<lambda>c. is_digit c \<or> c = CHR ''_'') b \<and>
      (CHR ''_'', CHR ''_'') \<notin> set (zip b (tl b)))"

definition int_literal :: "string \<Rightarrow> int option" where
  "int_literal s =
     (let b = strip s;
          neg = (b \<noteq> [] \<and> hd b = CHR ''-'');
          body = (if b \<noteq> [] \<and> (hd b = CHR ''-'' \<or> hd b = CHR ''+'') then tl b else b);
          ds = filter is_digit body
      in if int_body_ok body \<and> length ds \<le> 4300
         then Some (if neg then - int (digits_value ds) else int (digits_value ds))
         else None)"

text \<open>\<^verbatim>\<open>int(cell)\<close> and \<^verbatim>\<open>str(cell)\<close>.\<close>

definition py_int :: "cell \<Rightarrow> error + int" where
  "py_int c =
     (case c of
        NaN \<Rightarrow> Inl ValueError_int_of_nan
      | InfCell neg \<Rightarrow> Inl OverflowError_int_of_inf
      | IntCell i \<Rightarrow> Inr i
      | StrCell s \<Rightarrow>
          (case int_literal s of None \<Rightarrow> Inl (ValueError_invalid_literal s) | Some i \<Rightarrow> Inr i))"

definition py_str :: "cell \<Rightarrow> string" where
  "py_str c =
     (case c of
        NaN \<Rightarrow> ''nan''
      | InfCell neg \<Rightarrow> (if neg then ''-inf'' else ''inf'')
      | IntCell i \<Rightarrow> str_int i
      | StrCell s \<Rightarrow> s)"

type_synonym terms_dict = "(string \<times> Term) list"

text \<open>The call \<^verbatim>\<open>Term(id=term_id, term=str(row['term']).lower().strip(),
  translation=str(row['translation']), ...)\<close>, given the two cells.\<close>

definition make_term :: "string \<Rightarrow> string \<Rightarrow> string \<Rightarrow> int \<Rightarrow> cell \<Rightarrow> cell \<Rightarrow> Term" where
  "make_term d l g term_id term_cell translation_cell =
     \<lparr> t_id = term_id, t_term = strip (lower (py_str term_cell)),
       t_translation = py_str translation_cell,
       t_domain = d, t_language = l, t_google_lang_code = g \<rparr>"

text \<open>The loop over \<^verbatim>\<open>df.iterrows()\<close> that fills \<^verbatim>\<open>terms_dict\<close>. A row evaluates
  \<^verbatim>\<open>int(row['id'])\<close>, then \<^verbatim>\<open>row['term']\<close>, then \<^verbatim>\<open>row['translation']\<close>; the first
  exception ends the load.\<close>

fun load_rows :: "string \<Rightarrow> string \<Rightarrow> string \<Rightarrow> row list \<Rightarrow> terms_dict \<Rightarrow> error + terms_dict" where
  "load_rows d l g [] td = Inr td"
| "load_rows d l g (r # rs) td =
     (case row_id r of
        None \<Rightarrow> Inl (KeyError ''id'')
      | Some id_cell \<Rightarrow>
         (case py_int id_cell of
            Inl e \<Rightarrow> Inl e
          | Inr term_id \<Rightarrow>
             (case row_term r of
                None \<Rightarrow> Inl (KeyError ''term'')
              | Some term_cell \<Rightarrow>
                 (case row_translation r of
                    None \<Rightarrow> Inl (KeyError ''translation'')
                  | Some translation_cell \<Rightarrow>
                     (let t = make_term d l g term_id term_cell translation_cell
                      in load_rows d l g rs (AList.update (t_term t) t td))))))"

record manager =
  terms_by_domain_lang :: "((string \<times> string) \<times> terms_dict) list"
  domains_languages :: "(string \<times> string) list"
  available_google_languages :: "string list"

text \<open>An entry of the directory: the groups \<open>(domain, language)\<close> of the file-name pattern
  \<^verbatim>\<open>(.+)_terms_(.+)\.csv$\<close> when the name matches it, and the rows of the file.\<close>

type_synonym dir_entry = "(string \<times> string) option \<times> row list"

text \<open>The loop over \<^verbatim>\<open>os.listdir\<close> in \<^verbatim>\<open>_load_terminologies\<close>. The warning printed for a
  language the provider does not support changes no state and is left out.\<close>

fun load_files :: "(string \<Rightarrow> string) \<Rightarrow> dir_entry list \<Rightarrow> manager \<Rightarrow> error + manager" where
  "load_files conv [] m = Inr m"
| "load_files conv ((None, rows) # es) m = load_files conv es m"
| "load_files conv ((Some (d, l), rows) # es) m =
     (let google_lang_code = conv l;
          m1 = m \<lparr> domains_languages := List.insert (d, l) (domains_languages m),
                   available_google_languages :=
                     List.insert google_lang_code (available_google_languages m) \<rparr>
      in case load_rows d l google_lang_code rows [] of
           Inl e \<Rightarrow> Inl e
         | Inr td \<Rightarrow>
             load_files conv es
               (m1 \<lparr> terms_by_domain_lang := AList.update (d, l) td (terms_by_domain_lang m1) \<rparr>))"

text \<open>The constructor: \<open>None\<close> is a directory that does not exist.\<close>

definition load_terminologies :: "(string \<Rightarrow> string) \<Rightarrow> dir_entry list option \<Rightarrow> error + manager" where
  "load_terminologies conv dir =
     (case dir of
        None \<Rightarrow> Inl FileNotFoundError
      | Some es \<Rightarrow>
          load_files conv es
            \<lparr> terms_by_domain_lang = [], domains_languages = [], available_google_languages = [] \<rparr>)"

definition get_domains :: "manager \<Rightarrow> string list" where
  "get_domains m = sort (remdups (map fst (domains_languages m)))"

definition get_terms_for_domain_lang ::
  "(string \<Rightarrow> string) \<Rightarrow> manager \<Rightarrow> string \<Rightarrow> string \<Rightarrow> terms_dict" where
  "get_terms_for_domain_lang conv m d l =
     (case map_of (terms_by_domain_lang m) (d, l) of
        Some terms \<Rightarrow> terms
      | None \<Rightarrow>
         (case (if length l = 2
                then find (\<lambda>((d', l'), terms). d' = d \<and> conv l' = l) (terms_by_domain_lang m)
                else None) of
            Some (k, terms) \<Rightarrow> terms
          | None \<Rightarrow>
             (case (if length l = 3
                    then find (\<lambda>((d', l'), terms). d' = d \<and> conv l' = conv l)
                           (terms_by_domain_lang m)
                    else None) of
                Some (k, terms) \<Rightarrow> terms
              | None \<Rightarrow> [])))"

subsection \<open>Substitution and restoration\<close>

definition placeholder :: "Term \<Rightarrow> string" where
  "placeholder t = ''<'' @ str_int (t_id t) @ ''>''"

text \<open>\<^verbatim>\<open>pattern.sub(replace_with_placeholder, text)\<close>: the callback runs once for every
  match, stores the term under its placeholder and returns the placeholder.\<close>

fun sub_pieces :: "Term \<Rightarrow> piece list \<Rightarrow> terms_dict \<Rightarrow> string \<times> terms_dict" where
  "sub_pieces t [] reps = ([], reps)"
| "sub_pieces t (Copied c # ps) reps =
     (let (out, reps') = sub_pieces t ps reps in (c # out, reps'))"
| "sub_pieces t (Matched mt # ps) reps =
     (let (out, reps') = sub_pieces t ps (AList.update (placeholder t) t reps)
      in (placeholder t @ out, reps'))"

text \<open>\<^verbatim>\<open>sorted(terms_dict.values(), key=lambda x: len(x.term), reverse=True)\<close>: a stable
  sort, longest term first.\<close>

definition sorted_terms :: "terms_dict \<Rightarrow> Term list" where
  "sorted_terms td = sort_key (\<lambda>t. - int (length (t_term t))) (map snd td)"

fun substitute :: "Term list \<Rightarrow> string \<Rightarrow> terms_dict \<Rightarrow> string \<times> terms_dict" where
  "substitute [] text reps = (text, reps)"
| "substitute (t # ts) text reps =
     (let (text', reps') = sub_pieces t (re_scan (t_term t) None text) reps
      in substitute ts text' reps')"

definition preprocess_text ::
  "(string \<Rightarrow> string) \<Rightarrow> manager \<Rightarrow> string \<Rightarrow> string \<Rightarrow> string \<Rightarrow> error + string \<times> terms_dict" where
  "preprocess_text conv m text d l =
     (let terms_dict = get_terms_for_domain_lang conv m d l
      in if terms_dict = [] then
           (let available_domains = get_domains m
            in if d \<in> set available_domains then
                 Inl (ValueError_no_terminology d l
                        (map snd (filter (\<lambda>(d', l'). d' = d) (domains_languages m))))
               else Inl (ValueError_domain_not_found d available_domains))
         else Inr (substitute (sorted_terms terms_dict) text []))"


subsection \<open>Auxiliary notions for the proofs\<close>

text \<open>The id of a row when \<^verbatim>\<open>int(row['id'])\<close> succeeds; a row that the loop reads without
  an exception; the term text of a row; and the Term the loop builds from a row.\<close>

definition id_of :: "row \<Rightarrow> int option" where
  "id_of r =
     (case row_id r of
        None \<Rightarrow> None
      | Some c \<Rightarrow> (case py_int c of Inl e \<Rightarrow> None | Inr i \<Rightarrow> Some i))"

definition row_ok :: "row \<Rightarrow> bool" where
  "row_ok r = (id_of r \<noteq> None \<and> row_term r \<noteq> None \<and> row_translation r \<noteq> None)"

definition row_key :: "row \<Rightarrow> string" where
  "row_key r = strip (lower (py_str (the (row_term r))))"

definition loaded_term :: "string \<Rightarrow> string \<Rightarrow> string \<Rightarrow> row \<Rightarrow> Term" where
  "loaded_term d l g r =
     make_term d l g (the (id_of r)) (the (row_term r)) (the (row_translation r))"

text \<open>The dictionary the row loop builds when no row fails.\<close>

definition rows_dict :: "string \<Rightarrow> string \<Rightarrow> string \<Rightarrow> row list \<Rightarrow> terms_dict \<Rightarrow> terms_dict" where
  "rows_dict d l g rows td =
     foldl (\<lambda>acc r. AList.update (row_key r) (loaded_term d l g r) acc) td rows"

text \<open>The state after one terminology file whose rows are all read without exception.\<close>

definition add_file :: "(string \<Rightarrow> string) \<Rightarrow> string \<Rightarrow> string \<Rightarrow> row list \<Rightarrow> manager \<Rightarrow> manager" where
  "add_file conv d l rows m =
     m \<lparr> domains_languages := List.insert (d, l) (domains_languages m),
         available_google_languages := List.insert (conv l) (available_google_languages m),
         terms_by_domain_lang :=
           AList.update (d, l) (rows_dict d l (conv l) rows []) (terms_by_domain_lang m) \<rparr>"

definition rows_ok :: "row list \<Rightarrow> bool" where
  "rows_ok rows = (\<forall>r\<in>set rows. row_ok r)"

text \<open>The pairs named by the files of a directory.\<close>

definition file_keys :: "dir_entry list \<Rightarrow> (string \<times> string) set" where
  "file_keys es = {k. \<exists>rows. (Some k, rows) \<in> set es}"


text \<open>The text a scan yields when every match is replaced by \<open>ph\<close>.\<close>

definition render_pieces :: "string \<Rightarrow> piece list \<Rightarrow> string" where
  "render_pieces ph ps = concat (map (\<lambda>p. case p of Copied c \<Rightarrow> [c] | Matched mt \<Rightarrow> ph) ps)"

text \<open>The scan found at least one match.\<close>

definition has_match :: "piece list \<Rightarrow> bool" where
  "has_match ps = (\<exists>mt. Matched mt \<in> set ps)"




text \<open>One round of the loop of \<open>preprocess_text\<close>: the substitution of one term in the
  text reached so far, with the replacement map reached so far.\<close>

definition substitute_step :: "string \<times> terms_dict \<Rightarrow> Term \<Rightarrow> string \<times> terms_dict" where
  "substitute_step st t = sub_pieces t (re_scan (t_term t) None (fst st)) (snd st)"




subsection \<open>A small store for the worked examples\<close>

text \<open>A conversion table in which \<^verbatim>\<open>twi\<close> maps to \<^verbatim>\<open>ak\<close>, a directory with one file
  that is no terminology file and the file \<^verbatim>\<open>agric_terms_twi.csv\<close> of two rows, and the
  manager the constructor builds from it.\<close>

definition twi_conv :: "string \<Rightarrow> string" where
  "twi_conv = convert_lang_code [(''twi'', ''ak'')]"

definition mk_row :: "int \<Rightarrow> string \<Rightarrow> string \<Rightarrow> row" where
  "mk_row i t tr =
     \<lparr> row_id = Some (IntCell i), row_term = Some (StrCell t),
       row_translation = Some (StrCell tr) \<rparr>"

definition agric_term :: "string \<Rightarrow> int \<Rightarrow> string \<Rightarrow> string \<Rightarrow> Term" where
  "agric_term l i t tr =
     \<lparr> t_id = i, t_term = t, t_translation = tr, t_domain = ''agric'',
       t_language = l, t_google_lang_code = ''ak'' \<rparr>"

definition agric_dir :: "dir_entry list" where
  "agric_dir =
     [(None, []),
      (Some (''agric'', ''twi''), [mk_row 1 ''abattoir'' ''X'', mk_row 2 ''acreage'' ''Y''])]"

definition agric_store :: manager where
  "agric_store =
     \<lparr> terms_by_domain_lang =
         [((''agric'', ''twi''),
           [(''abattoir'', agric_term ''twi'' 1 ''abattoir'' ''X''),
            (''acreage'', agric_term ''twi'' 2 ''acreage'' ''Y'')])],
       domains_languages = [(''agric'', ''twi'')],
       available_google_languages = [''ak''] \<rparr>"

text \<open>A directory in which the file for \<^verbatim>\<open>ewe\<close> holds no row, and the manager built
  from it.\<close>

definition empty_file_dir :: "dir_entry list" where
  "empty_file_dir =
     [(Some (''agric'', ''ewe''), []),
      (Some (''agric'', ''twi''), [mk_row 1 ''abattoir'' ''X''])]"

definition empty_file_store :: manager where
  "empty_file_store =
     \<lparr> terms_by_domain_lang =
         [((''agric'', ''ewe''), []),
          ((''agric'', ''twi''), [(''abattoir'', agric_term ''twi'' 1 ''abattoir'' ''X'')])],
       domains_languages = [(''agric'', ''twi''), (''agric'', ''ewe'')],
       available_google_languages = [''ak'', ''ewe''] \<rparr>"

text \<open>A file in which the first and the third row carry the same term text once it is
  lowercased and trimmed, and the manager built from it.\<close>

definition duplicate_dir :: "dir_entry list" where
  "duplicate_dir =
     [(Some (''agric'', ''twi''),
       [mk_row 1 ''Abattoir '' ''X'', mk_row 2 ''acreage'' ''Y'', mk_row 3 ''abattoir'' ''Z''])]"

definition duplicate_store :: manager where
  "duplicate_store =
     \<lparr> terms_by_domain_lang =
         [((''agric'', ''twi''),
           [(''abattoir'', agric_term ''twi'' 3 ''abattoir'' ''Z''),
            (''acreage'', agric_term ''twi'' 2 ''acreage'' ''Y'')])],
       domains_languages = [(''agric'', ''twi'')],
       available_google_languages = [''ak''] \<rparr>"

text \<open>A file with a row that lacks its translation and a row that lacks its term, the
  manager built from it, and a file with a row that lacks its id.\<close>

definition row_no_translation :: row where
  "row_no_translation =
     \<lparr> row_id = Some (IntCell 1), row_term = Some (StrCell ''abattoir''),
       row_translation = Some NaN \<rparr>"

definition row_no_term :: row where
  "row_no_term =
     \<lparr> row_id = Some (IntCell 2), row_term = Some NaN,
       row_translation = Some (StrCell ''Y'') \<rparr>"

definition row_no_id :: row where
  "row_no_id =
     \<lparr> row_id = Some NaN, row_term = Some (StrCell ''acreage''),
       row_translation = Some (StrCell ''Y'') \<rparr>"

definition nan_dir :: "dir_entry list" where
  "nan_dir =
     [(Some (''agric'', ''twi''),
       [row_no_translation, row_no_term])]"

definition nan_store :: manager where
  "nan_store =
     \<lparr> terms_by_domain_lang =
         [((''agric'', ''twi''),
           [(''abattoir'', agric_term ''twi'' 1 ''abattoir'' ''nan''),
            (''nan'', agric_term ''twi'' 2 ''nan'' ''Y'')])],
       domains_languages = [(''agric'', ''twi'')],
       available_google_languages = [''ak''] \<rparr>"

definition no_id_dir :: "dir_entry list" where
  "no_id_dir =
     [(Some (''agric'', ''twi''),
       [mk_row 1 ''abattoir'' ''X'',
        row_no_id])]"

text \<open>A directory that holds a file for \<^verbatim>\<open>ak\<close> and a file for \<^verbatim>\<open>twi\<close> in the same
  domain, and the manager built from it.\<close>

definition both_dir :: "dir_entry list" where
  "both_dir =
     [(Some (''agric'', ''ak''), [mk_row 1 ''abattoir'' ''A'']),
      (Some (''agric'', ''twi''), [mk_row 1 ''abattoir'' ''X''])]"

definition both_store :: manager where
  "both_store =
     \<lparr> terms_by_domain_lang =
         [((''agric'', ''ak''), [(''abattoir'', agric_term ''ak'' 1 ''abattoir'' ''A'')]),
          ((''agric'', ''twi''), [(''abattoir'', agric_term ''twi'' 1 ''abattoir'' ''X'')])],
       domains_languages = [(''agric'', ''twi''), (''agric'', ''ak'')],
       available_google_languages = [''ak''] \<rparr>"

text \<open>A store whose file lists the term \<^verbatim>\<open>acid\<close> before the compound term
  \<^verbatim>\<open>acid rain\<close>.\<close>

definition acid_store :: manager where
  "acid_store =
     \<lparr> terms_by_domain_lang =
         [((''agric'', ''twi''),
           [(''acid'', agric_term ''twi'' 2 ''acid'' ''B''),
            (''acid rain'', agric_term ''twi'' 1 ''acid rain'' ''A'')])],
       domains_languages = [(''agric'', ''twi'')],
       available_google_languages = [''ak''] \<rparr>"


text \<open>A store with three terms, the compound term listed between its two parts.\<close>

definition rain_store :: manager where
  "rain_store =
     \<lparr> terms_by_domain_lang =
         [((''agric'', ''twi''),
           [(''acid'', agric_term ''twi'' 2 ''acid'' ''B''),
            (''acid rain'', agric_term ''twi'' 1 ''acid rain'' ''A''),
            (''rain'', agric_term ''twi'' 3 ''rain'' ''C'')])],
       domains_languages = [(''agric'', ''twi'')],
       available_google_languages = [''ak''] \<rparr>"

text \<open>A store that holds only the file for the 2-letter code \<^verbatim>\<open>ak\<close>.\<close>

definition ak_store :: manager where
  "ak_store =
     \<lparr> terms_by_domain_lang =
         [((''agric'', ''ak''), [(''abattoir'', agric_term ''ak'' 1 ''abattoir'' ''A'')])],
       domains_languages = [(''agric'', ''ak'')],
       available_google_languages = [''ak''] \<rparr>"


section \<open>Properties\<close>

subsection \<open>Loading\<close>

lemma load_rows_step_ok:
  "row_ok r \<Longrightarrow>
   load_rows d l g (r # rs) td =
     load_rows d l g rs (AList.update (row_key r) (loaded_term d l g r) td)"
  by (auto simp: row_ok_def id_of_def row_key_def loaded_term_def make_term_def Let_def
      split: option.splits sum.splits)

lemma load_rows_step_fail:
  "\<not> row_ok r \<Longrightarrow> \<exists>e. load_rows d l g (r # rs) td = Inl e"
  by (auto simp: row_ok_def id_of_def split: option.splits sum.splits)

lemma load_rows_ok:
  "rows_ok rows \<Longrightarrow> load_rows d l g rows td = Inr (rows_dict d l g rows td)"
proof (induction rows arbitrary: td)
  case Nil
  show ?case by (simp add: rows_dict_def)
next
  case (Cons r rows)
  from Cons.prems have r: "row_ok r" and rs: "rows_ok rows"
    by (simp_all add: rows_ok_def)
  have "load_rows d l g (r # rows) td =
        load_rows d l g rows (AList.update (row_key r) (loaded_term d l g r) td)"
    using r by (rule load_rows_step_ok)
  also have "\<dots> = Inr (rows_dict d l g rows (AList.update (row_key r) (loaded_term d l g r) td))"
    using rs by (rule Cons.IH)
  finally show ?case by (simp add: rows_dict_def)
qed

lemma load_rows_fail:
  "\<not> rows_ok rows \<Longrightarrow> \<exists>e. load_rows d l g rows td = Inl e"
proof (induction rows arbitrary: td)
  case Nil
  then show ?case by (simp add: rows_ok_def)
next
  case (Cons r rows)
  show ?case
  proof (cases "row_ok r")
    case True
    with Cons.prems have "\<not> rows_ok rows" by (simp add: rows_ok_def)
    then have "\<exists>e. load_rows d l g rows (AList.update (row_key r) (loaded_term d l g r) td) = Inl e"
      by (rule Cons.IH)
    then show ?thesis using True by (simp only: load_rows_step_ok)
  next
    case False
    then show ?thesis by (rule load_rows_step_fail)
  qed
qed

lemma load_rows_first_nan:
  "rows_ok pre \<Longrightarrow> row_id r = Some NaN \<Longrightarrow>
   load_rows d l g (pre @ r # post) td = Inl ValueError_int_of_nan"
proof (induction pre arbitrary: td)
  case Nil
  then show ?case by (simp add: py_int_def)
next
  case (Cons p pre)
  from Cons.prems have p: "row_ok p" and ps: "rows_ok pre"
    by (simp_all add: rows_ok_def)
  have "load_rows d l g ((p # pre) @ r # post) td =
        load_rows d l g (pre @ r # post) (AList.update (row_key p) (loaded_term d l g p) td)"
    using p by (simp only: append_Cons load_rows_step_ok)
  then show ?case using Cons.IH [OF ps Cons.prems(2)] by simp
qed

lemma distinct_rows_dict:
  "distinct (map fst td) \<Longrightarrow> distinct (map fst (rows_dict d l g rows td))"
  unfolding rows_dict_def
  by (induction rows arbitrary: td) (simp_all add: distinct_update)

lemma rows_dict_snoc:
  "rows_dict d l g (rows @ [r]) td =
     AList.update (row_key r) (loaded_term d l g r) (rows_dict d l g rows td)"
  by (simp add: rows_dict_def)

lemma map_of_rows_dict_other:
  "\<forall>r\<in>set rows. row_key r \<noteq> k \<Longrightarrow> map_of (rows_dict d l g rows td) k = map_of td k"
  unfolding rows_dict_def
  by (induction rows arbitrary: td) (auto simp: update_conv')

lemma map_of_rows_dict_last:
  assumes "\<forall>r'\<in>set post. row_key r' \<noteq> row_key r"
  shows "map_of (rows_dict d l g (pre @ r # post) td) (row_key r) =
           Some (loaded_term d l g r)"
proof -
  have "rows_dict d l g (pre @ r # post) td =
          rows_dict d l g post (rows_dict d l g (pre @ [r]) td)"
    by (simp add: rows_dict_def)
  then show ?thesis
    using assms by (simp add: map_of_rows_dict_other rows_dict_snoc update_conv')
qed

lemma keys_rows_dict:
  "fst ` set (rows_dict d l g rows td) = fst ` set td \<union> row_key ` set rows"
  unfolding rows_dict_def
  by (induction rows arbitrary: td) (auto simp: dom_update)

lemma set_update_subset: "set (AList.update k v al) \<subseteq> insert (k, v) (set al)"
  by (induction al) auto

lemma rows_dict_entries:
  "\<forall>(k, t)\<in>set td. t_term t = k \<Longrightarrow> \<forall>(k, t)\<in>set (rows_dict d l g rows td). t_term t = k"
  unfolding rows_dict_def
proof (induction rows arbitrary: td)
  case Nil
  then show ?case by simp
next
  case (Cons r rows)
  have "set (AList.update (row_key r) (loaded_term d l g r) td)
          \<subseteq> insert (row_key r, loaded_term d l g r) (set td)"
    by (rule set_update_subset)
  moreover have "t_term (loaded_term d l g r) = row_key r"
    by (simp add: loaded_term_def make_term_def row_key_def)
  ultimately have "\<forall>(k, t)\<in>set (AList.update (row_key r) (loaded_term d l g r) td). t_term t = k"
    using Cons.prems by blast
  then show ?case using Cons.IH by simp
qed

lemma load_files_Cons_ok:
  "rows_ok rows \<Longrightarrow>
   load_files conv ((Some (d, l), rows) # es) m = load_files conv es (add_file conv d l rows m)"
  by (simp add: load_rows_ok add_file_def Let_def)

lemma load_files_Cons_fail:
  "\<not> rows_ok rows \<Longrightarrow>
   \<exists>e. load_files conv ((Some (d, l), rows) # es) m = Inl e"
proof -
  assume "\<not> rows_ok rows"
  then obtain e where "load_rows d l (conv l) rows [] = Inl e"
    using load_rows_fail by blast
  then show ?thesis by (simp add: Let_def)
qed

lemmas load_files_step = load_files.simps(1,2) load_files_Cons_ok load_files_Cons_fail

lemma file_keys_simps [simp]:
  "file_keys [] = {}"
  "file_keys ((None, rows) # es) = file_keys es"
  "file_keys ((Some k, rows) # es) = insert k (file_keys es)"
  by (auto simp: file_keys_def)

lemma load_files_fails_iff:
  "(\<exists>e. load_files conv es m = Inl e) \<longleftrightarrow>
     (\<exists>k rows. (Some k, rows) \<in> set es \<and> \<not> rows_ok rows)"
proof (induction es arbitrary: m)
  case Nil
  then show ?case by simp
next
  case (Cons x es)
  obtain k rows where x: "x = (k, rows)" by (cases x)
  show ?case
  proof (cases k)
    case None
    then show ?thesis using Cons.IH [of m] x by simp
  next
    case (Some dl)
    obtain d l where dl: "dl = (d, l)" by (cases dl)
    show ?thesis
    proof (cases "rows_ok rows")
      case True
      have "(\<exists>e. load_files conv (x # es) m = Inl e) \<longleftrightarrow>
            (\<exists>e. load_files conv es (add_file conv d l rows m) = Inl e)"
        using True x Some dl by (simp only: load_files_Cons_ok)
      also have "\<dots> \<longleftrightarrow> (\<exists>k rows. (Some k, rows) \<in> set es \<and> \<not> rows_ok rows)"
        by (rule Cons.IH)
      also have "\<dots> \<longleftrightarrow> (\<exists>k rows. (Some k, rows) \<in> set (x # es) \<and> \<not> rows_ok rows)"
        using True x by auto
      finally show ?thesis .
    next
      case False
      have fails: "\<exists>e. load_files conv (x # es) m = Inl e"
        using load_files_Cons_fail [OF False, of conv d l es m] x Some dl by simp
      have "(Some dl, rows) \<in> set (x # es) \<and> \<not> rows_ok rows"
        using False x Some by simp
      then have "\<exists>k rows. (Some k, rows) \<in> set (x # es) \<and> \<not> rows_ok rows"
        by blast
      with fails show ?thesis by blast
    qed
  qed
qed

lemma load_files_induct [consumes 1, case_names Nil Skip File]:
  assumes ok: "load_files conv es m = Inr m'"
    and base: "P [] m'"
    and other: "\<And>rows es m. load_files conv es m = Inr m' \<Longrightarrow> P es m \<Longrightarrow> P ((None, rows) # es) m"
    and termfile: "\<And>d l rows es m. rows_ok rows \<Longrightarrow>
                 load_files conv es (add_file conv d l rows m) = Inr m' \<Longrightarrow>
                 P es (add_file conv d l rows m) \<Longrightarrow> P ((Some (d, l), rows) # es) m"
  shows "P es m"
  using ok
proof (induction es arbitrary: m)
  case Nil
  then show ?case using base by simp
next
  case (Cons x es)
  obtain k rows where x: "x = (k, rows)" by (cases x)
  show ?case
  proof (cases k)
    case None
    then show ?thesis using Cons x other by simp
  next
    case (Some dl)
    obtain d l where dl: "dl = (d, l)" by (cases dl)
    have r: "rows_ok rows"
    proof (rule ccontr)
      assume "\<not> rows_ok rows"
      then obtain e where "load_files conv ((Some (d, l), rows) # es) m = Inl e"
        using load_files_Cons_fail by blast
      then show False using Cons.prems x Some dl by simp
    qed
    then have "load_files conv es (add_file conv d l rows m) = Inr m'"
      using Cons.prems x Some dl by (simp del: load_files.simps add: load_files_Cons_ok)
    then show ?thesis
      using Cons.IH termfile r x Some dl by blast
  qed
qed

lemma add_file_simps [simp]:
  "domains_languages (add_file conv d l rows m) = List.insert (d, l) (domains_languages m)"
  "terms_by_domain_lang (add_file conv d l rows m) =
     AList.update (d, l) (rows_dict d l (conv l) rows []) (terms_by_domain_lang m)"
  by (simp_all add: add_file_def)

lemma load_files_domains_languages:
  "load_files conv es m = Inr m' \<Longrightarrow>
   set (domains_languages m') = set (domains_languages m) \<union> file_keys es"
  by (induction es m rule: load_files_induct) auto

lemma load_files_keys:
  "load_files conv es m = Inr m' \<Longrightarrow>
   fst ` set (terms_by_domain_lang m') = fst ` set (terms_by_domain_lang m) \<union> file_keys es"
  by (induction es m rule: load_files_induct) (auto simp: dom_update)

lemma load_files_distinct_keys:
  "load_files conv es m = Inr m' \<Longrightarrow> distinct (map fst (terms_by_domain_lang m)) \<Longrightarrow>
   distinct (map fst (terms_by_domain_lang m'))"
  by (induction es m rule: load_files_induct) (auto simp: distinct_update)

lemma load_files_map_of_other:
  "load_files conv es m = Inr m' \<Longrightarrow> k \<notin> file_keys es \<Longrightarrow>
   map_of (terms_by_domain_lang m') k = map_of (terms_by_domain_lang m) k"
  by (induction es m rule: load_files_induct) (auto simp: update_conv')

lemma load_files_buckets:
  assumes "load_files conv es m = Inr m'"
    and "\<And>d l g rows. Q (rows_dict d l g rows [])"
    and "\<forall>(k, td)\<in>set (terms_by_domain_lang m). Q td"
  shows "\<forall>(k, td)\<in>set (terms_by_domain_lang m'). Q td"
  using assms(1,3)
proof (induction es m rule: load_files_induct)
  case (File d l rows es m)
  have "set (AList.update (d, l) (rows_dict d l (conv l) rows []) (terms_by_domain_lang m))
        \<subseteq> insert ((d, l), rows_dict d l (conv l) rows []) (set (terms_by_domain_lang m))"
    by (rule set_update_subset)
  then have "\<forall>(k, td)\<in>set (terms_by_domain_lang (add_file conv d l rows m)). Q td"
    using File.prems assms(2) by auto
  then show ?case using File.IH by simp
qed simp_all

text \<open>What a successful load establishes.\<close>

lemma loaded_index:
  assumes "load_terminologies conv dir = Inr m"
  obtains es where "dir = Some es"
    and "set (domains_languages m) = file_keys es"
    and "fst ` set (terms_by_domain_lang m) = file_keys es"
    and "distinct (map fst (terms_by_domain_lang m))"
proof -
  from assms obtain es where es: "dir = Some es"
    and lf: "load_files conv es
       \<lparr> terms_by_domain_lang = [], domains_languages = [], available_google_languages = [] \<rparr> = Inr m"
    by (auto simp: load_terminologies_def split: option.splits)
  show thesis
    using that [OF es] load_files_domains_languages [OF lf] load_files_keys [OF lf]
      load_files_distinct_keys [OF lf]
    by simp
qed

lemma load_files_map_of_file:
  "load_files conv es m = Inr m' \<Longrightarrow> (Some (d, l), rows) \<in> set es \<Longrightarrow>
   (\<forall>e\<in>set es. fst e = Some (d, l) \<longrightarrow> snd e = rows) \<Longrightarrow>
   map_of (terms_by_domain_lang m') (d, l) = Some (rows_dict d l (conv l) rows [])"
proof (induction es m rule: load_files_induct)
  case Nil
  then show ?case by simp
next
  case (Skip rows' es m)
  from Skip.prems have "(Some (d, l), rows) \<in> set es"
    and "\<forall>e\<in>set es. fst e = Some (d, l) \<longrightarrow> snd e = rows"
    by simp_all
  then show ?case by (rule Skip.IH)
next
  case (File d' l' rows' es m)
  have uniq: "\<forall>e\<in>set es. fst e = Some (d, l) \<longrightarrow> snd e = rows"
    using File.prems(2) by simp
  show ?case
  proof (cases "(d, l) \<in> file_keys es")
    case True
    then obtain r where "(Some (d, l), r) \<in> set es"
      by (auto simp: file_keys_def)
    with uniq have "(Some (d, l), rows) \<in> set es" by force
    then show ?thesis using uniq by (rule File.IH)
  next
    case False
    then have "(Some (d, l), rows) \<notin> set es"
      by (auto simp: file_keys_def)
    with File.prems(1) have eq: "d' = d" "l' = l" "rows' = rows"
      by simp_all
    have "map_of (terms_by_domain_lang m') (d, l) =
          map_of (terms_by_domain_lang (add_file conv d' l' rows' m)) (d, l)"
      using File.hyps(2) False by (rule load_files_map_of_other)
    then show ?thesis using eq by (simp add: update_conv')
  qed
qed

subsection \<open>The two outcomes of preprocessing\<close>

lemma agric_store_loaded: "load_terminologies twi_conv (Some agric_dir) = Inr agric_store"
  by code_simp

lemma set_get_domains: "set (get_domains m) = fst ` set (domains_languages m)"
  by (simp add: get_domains_def)

lemma preprocess_text_empty:
  "get_terms_for_domain_lang conv m d l = [] \<Longrightarrow>
   preprocess_text conv m text d l =
     (if d \<in> fst ` set (domains_languages m)
      then Inl (ValueError_no_terminology d l
                 (map snd (filter (\<lambda>(d', l'). d' = d) (domains_languages m))))
      else Inl (ValueError_domain_not_found d (get_domains m)))"
  by (simp add: preprocess_text_def Let_def set_get_domains)

lemma preprocess_text_nonempty:
  "get_terms_for_domain_lang conv m d l \<noteq> [] \<Longrightarrow>
   preprocess_text conv m text d l =
     Inr (substitute (sorted_terms (get_terms_for_domain_lang conv m d l)) text [])"
  by (simp add: preprocess_text_def Let_def)

lemma available_langs: "set (map snd (filter (\<lambda>(d', l'). d' = d) dl)) = {l'. (d, l') \<in> set dl}"
  by force

subsection \<open>The buckets of a loaded store\<close>

lemma load_terminologies_Some:
  "load_terminologies conv (Some es) =
     load_files conv es
       \<lparr> terms_by_domain_lang = [], domains_languages = [], available_google_languages = [] \<rparr>"
  by (simp add: load_terminologies_def)

lemma loaded_buckets:
  assumes "load_terminologies conv dir = Inr m"
  shows "\<forall>(k, td)\<in>set (terms_by_domain_lang m).
           distinct (map fst td) \<and> (\<forall>(key, t)\<in>set td. t_term t = key)"
proof -
  from assms obtain es where "dir = Some es"
    by (auto simp: load_terminologies_def split: option.splits)
  with assms have lf: "load_files conv es
       \<lparr> terms_by_domain_lang = [], domains_languages = [], available_google_languages = [] \<rparr> = Inr m"
    by (simp add: load_terminologies_Some)
  show ?thesis
  proof (rule load_files_buckets [OF lf])
    fix d l g rows
    show "distinct (map fst (rows_dict d l g rows [])) \<and>
          (\<forall>(key, t)\<in>set (rows_dict d l g rows []). t_term t = key)"
      using distinct_rows_dict [of "[]" d l g rows] rows_dict_entries [of "[]" d l g rows]
      by simp
  qed simp
qed

lemma loaded_rows_ok:
  assumes "load_terminologies conv (Some es) = Inr m" and "(Some k, rows) \<in> set es"
  shows "rows_ok rows"
proof (rule ccontr)
  assume "\<not> rows_ok rows"
  then have "\<exists>k rows. (Some k, rows) \<in> set es \<and> \<not> rows_ok rows"
    using assms(2) by blast
  then have "\<exists>e. load_files conv es
       \<lparr> terms_by_domain_lang = [], domains_languages = [], available_google_languages = [] \<rparr> =
       Inl e"
    by (simp only: load_files_fails_iff)
  then show False using assms(1) by (simp add: load_terminologies_Some)
qed

lemma row_ok_cells:
  assumes "row_ok r"
  obtains term_id term_cell translation_cell where
    "id_of r = Some term_id" "row_term r = Some term_cell"
    "row_translation r = Some translation_cell"
    "row_key r = strip (lower (py_str term_cell))"
    "loaded_term d l g r = make_term d l g term_id term_cell translation_cell"
  using assms by (auto simp: row_ok_def row_key_def loaded_term_def)

lemma loaded_last_row:
  assumes "load_terminologies conv (Some es) = Inr m"
    and "(Some (d, l), pre @ r # post) \<in> set es"
    and "\<forall>e\<in>set es. fst e = Some (d, l) \<longrightarrow> snd e = pre @ r # post"
    and "\<forall>r'\<in>set post. row_key r' \<noteq> row_key r"
  shows "\<exists>td term_id term_cell translation_cell.
           id_of r = Some term_id \<and> row_term r = Some term_cell \<and>
           row_translation r = Some translation_cell \<and>
           map_of (terms_by_domain_lang m) (d, l) = Some td \<and>
           map_of td (row_key r) =
             Some (make_term d l (conv l) term_id term_cell translation_cell)"
proof -
  from assms(1) have lf: "load_files conv es
       \<lparr> terms_by_domain_lang = [], domains_languages = [], available_google_languages = [] \<rparr> = Inr m"
    by (simp add: load_terminologies_Some)
  have "rows_ok (pre @ r # post)"
    using assms(1,2) by (rule loaded_rows_ok)
  then have "row_ok r" by (simp add: rows_ok_def)
  then obtain term_id term_cell translation_cell where c:
    "id_of r = Some term_id" "row_term r = Some term_cell"
    "row_translation r = Some translation_cell"
    "loaded_term d l (conv l) r = make_term d l (conv l) term_id term_cell translation_cell"
    by (rule row_ok_cells [where d = d and l = l and g = "conv l"])
  have "map_of (terms_by_domain_lang m) (d, l) = Some (rows_dict d l (conv l) (pre @ r # post) [])"
    using lf assms(2,3) by (rule load_files_map_of_file)
  moreover have "map_of (rows_dict d l (conv l) (pre @ r # post) []) (row_key r) =
      Some (make_term d l (conv l) term_id term_cell translation_cell)"
    using map_of_rows_dict_last [OF assms(4), of d l "conv l" pre "[]"] c(4) by simp
  ultimately show ?thesis using c(1,2,3) by blast
qed

lemma load_succeeds:
  assumes "\<forall>e\<in>set es. \<forall>r\<in>set (snd e). row_ok r"
  shows "\<exists>m. load_terminologies conv (Some es) = Inr m"
proof (cases "load_terminologies conv (Some es)")
  case (Inl e)
  then have "\<exists>e. load_files conv es
       \<lparr> terms_by_domain_lang = [], domains_languages = [], available_google_languages = [] \<rparr> =
       Inl e"
    by (simp add: load_terminologies_Some)
  then obtain k rows where "(Some k, rows) \<in> set es" "\<not> rows_ok rows"
    using load_files_fails_iff by blast
  then show ?thesis using assms by (force simp: rows_ok_def)
next
  case (Inr m)
  then show ?thesis by blast
qed

lemma load_fails:
  assumes "(Some k, rows) \<in> set es" and "\<exists>r\<in>set rows. \<not> row_ok r"
  shows "\<exists>e. load_terminologies conv (Some es) = Inl e"
proof -
  have "\<not> rows_ok rows"
    using assms(2) by (simp add: rows_ok_def)
  then have "\<exists>k rows. (Some k, rows) \<in> set es \<and> \<not> rows_ok rows"
    using assms(1) by blast
  then show ?thesis
    by (simp only: load_terminologies_Some load_files_fails_iff)
qed

lemma nan_id_not_ok: "row_id r = Some NaN \<Longrightarrow> \<not> row_ok r"
  by (simp add: row_ok_def id_of_def py_int_def)

lemma py_str_nan: "strip (lower ''nan'') = ''nan''" "py_str NaN = ''nan''"
  by (simp_all add: py_str_def strip_def lower_def lower_char_def is_space_def
      ascii_upper_def ascii_lower_def)

subsection \<open>Resolving the language code\<close>

lemma find_key_map_of:
  "find (\<lambda>(k, v). k = key) tbl = (case map_of tbl key of None \<Rightarrow> None | Some v \<Rightarrow> Some (key, v))"
  by (induction tbl) auto

lemma find_none_iff_set: "find P xs = None \<longleftrightarrow> (\<forall>x\<in>set xs. \<not> P x)"
  by (induction xs) auto

lemma get_terms_exact:
  "map_of (terms_by_domain_lang m) (d, l) = Some td \<Longrightarrow> get_terms_for_domain_lang conv m d l = td"
  by (simp add: get_terms_for_domain_lang_def)

lemma get_terms_two:
  "map_of (terms_by_domain_lang m) (d, l) = None \<Longrightarrow> length l = 2 \<Longrightarrow>
   get_terms_for_domain_lang conv m d l =
     (case find (\<lambda>((d', l'), terms). d' = d \<and> conv l' = l) (terms_by_domain_lang m) of
        Some (k, terms) \<Rightarrow> terms | None \<Rightarrow> [])"
  by (simp add: get_terms_for_domain_lang_def split: option.splits)

lemma get_terms_three:
  "map_of (terms_by_domain_lang m) (d, l) = None \<Longrightarrow> length l = 3 \<Longrightarrow>
   get_terms_for_domain_lang conv m d l =
     (case find (\<lambda>((d', l'), terms). d' = d \<and> conv l' = conv l) (terms_by_domain_lang m) of
        Some (k, terms) \<Rightarrow> terms | None \<Rightarrow> [])"
  by (simp add: get_terms_for_domain_lang_def split: option.splits)

lemma get_terms_other:
  "map_of (terms_by_domain_lang m) (d, l) = None \<Longrightarrow> length l \<noteq> 2 \<Longrightarrow> length l \<noteq> 3 \<Longrightarrow>
   get_terms_for_domain_lang conv m d l = []"
  by (simp add: get_terms_for_domain_lang_def)

lemma get_terms_via_find:
  assumes cl: "conv l = l2"
    and len: "length l = 2 \<and> l = l2 \<or> length l = 3"
    and one: "\<forall>((d', l'), td)\<in>set (terms_by_domain_lang m). d' = d \<and> conv l' = l2 \<longrightarrow> l' = l0"
  shows "get_terms_for_domain_lang conv m d l =
           (case find (\<lambda>((d', l'), terms). d' = d \<and> conv l' = l2) (terms_by_domain_lang m) of
              Some (k, terms) \<Rightarrow> terms | None \<Rightarrow> [])"
proof (cases "map_of (terms_by_domain_lang m) (d, l)")
  case None
  from len show ?thesis
  proof
    assume "length l = 2 \<and> l = l2"
    then have two: "length l = 2" and eq: "l = l2" by blast+
    show ?thesis using get_terms_two [OF None two, of conv] eq by simp
  next
    assume "length l = 3"
    then show ?thesis using get_terms_three [OF None, of conv] cl by simp
  qed
next
  case (Some b)
  let ?tbl = "terms_by_domain_lang m"
  let ?P = "\<lambda>((d', l'), terms :: terms_dict). d' = d \<and> conv l' = l2"
  have "((d, l), b) \<in> set ?tbl"
    using Some by (rule map_of_SomeD)
  with one cl have l0: "l0 = l" by fastforce
  have "\<forall>x\<in>set ?tbl. ?P x = (case x of (k, v) \<Rightarrow> k = (d, l))"
    using one cl l0 by fastforce
  then have "find ?P ?tbl = find (\<lambda>(k, v). k = (d, l)) ?tbl"
    by (intro find_cong) auto
  then have "find ?P ?tbl = Some ((d, l), b)"
    using Some by (simp add: find_key_map_of)
  then show ?thesis
    using Some by (simp add: get_terms_exact)
qed

lemma get_terms_same_normal_form:
  assumes "length l2 = 2" and "length l3 = 3" and "conv l3 = l2" and "conv l2 = l2"
    and "\<forall>((d', l'), td)\<in>set (terms_by_domain_lang m). d' = d \<and> conv l' = l2 \<longrightarrow> l' = l0"
  shows "get_terms_for_domain_lang conv m d l2 = get_terms_for_domain_lang conv m d l3"
  using get_terms_via_find [of conv l2 l2 m d l0] get_terms_via_find [of conv l3 l2 m d l0] assms
  by simp

lemma convert_lang_code_two: "length c = 2 \<Longrightarrow> convert_lang_code tbl c = c"
  by (simp add: convert_lang_code_def)

subsection \<open>The order of substitution\<close>

lemma sorted_terms_descending:
  "sorted_wrt (\<lambda>a b. length (t_term b) \<le> length (t_term a)) (sorted_terms td)"
proof -
  have "sorted (map (\<lambda>t. - int (length (t_term t))) (sorted_terms td))"
    unfolding sorted_terms_def by (rule sorted_sort_key)
  then show ?thesis by (simp add: sorted_map)
qed

lemma set_sorted_terms: "set (sorted_terms td) = snd ` set td"
  by (simp add: sorted_terms_def)

lemma length_sorted_terms: "length (sorted_terms td) = length td"
  by (simp add: sorted_terms_def)

subsection \<open>Characters, matching and the scan\<close>


















subsection \<open>The substitution loop\<close>

lemma render_pieces_simps [simp]:
  "render_pieces ph [] = []"
  "render_pieces ph (Copied c # ps) = c # render_pieces ph ps"
  "render_pieces ph (Matched mt # ps) = ph @ render_pieces ph ps"
  by (simp_all add: render_pieces_def)

lemma has_match_simps [simp]:
  "has_match [] = False"
  "has_match (Copied c # ps) = has_match ps"
  "has_match (Matched mt # ps) = True"
  by (auto simp: has_match_def)

lemma has_match_code [code]:
  "has_match ps = list_ex (\<lambda>p. case p of Copied c \<Rightarrow> False | Matched mt \<Rightarrow> True) ps"
  by (induction ps) (simp_all split: piece.split)

lemma sub_pieces_eq:
  "sub_pieces t ps reps =
     (render_pieces (placeholder t) ps,
      if has_match ps then AList.update (placeholder t) t reps else reps)"
proof (induction ps arbitrary: reps)
  case Nil
  then show ?case by simp
next
  case (Cons p ps)
  show ?case
  proof (cases p)
    case (Copied c)
    then show ?thesis using Cons.IH [of reps] by simp
  next
    case (Matched mt)
    then show ?thesis using Cons.IH [of "AList.update (placeholder t) t reps"] by simp
  qed
qed





lemma substitute_foldl: "substitute ts inp reps = foldl substitute_step (inp, reps) ts"
proof (induction ts arbitrary: inp reps)
  case Nil
  show ?case by simp
next
  case (Cons t ts)
  obtain a b where ab: "sub_pieces t (re_scan (t_term t) None inp) reps = (a, b)"
    by (cases "sub_pieces t (re_scan (t_term t) None inp) reps")
  then have "substitute (t # ts) inp reps = substitute ts a b"
    by simp
  also have "\<dots> = foldl substitute_step (a, b) ts"
    by (rule Cons.IH)
  also have "(a, b) = substitute_step (inp, reps) t"
    using ab by (simp add: substitute_step_def)
  finally show ?case by simp
qed

subsection \<open>Replacing placeholders\<close>



















subsection \<open>A missing directory\<close>

text \<open>
  Claim C9. Constructing the store fails whenever the terminologies directory does not
  exist (the model's \<open>None\<close>): the constructor raises \<^verbatim>\<open>FileNotFoundError\<close>, whatever the
  language-code conversion is, and returns no manager, so that no index is built.
\<close>

theorem load_missing_directory_fails:
  "load_terminologies conv None = Inl FileNotFoundError"
  by (simp add: load_terminologies_def)

subsection \<open>Diagnostics of preprocessing\<close>

text \<open>
  Claim C3. For a store that was loaded, when the term set resolved for the domain and the
  language is empty, \<open>preprocess_text\<close> fails: with the domain-not-found error, which lists
  the known domains (sorted, without repetition), when no pair of the index has the
  requested domain; and otherwise with the no-terminology error, which names the domain and
  the language and lists exactly the languages stored for that domain. When the resolved
  term set is not empty, \<open>preprocess_text\<close> returns a text and a replacement map.
\<close>

theorem preprocess_text_diagnostics:
  assumes "load_terminologies conv dir = Inr m"
  shows "(get_terms_for_domain_lang conv m d l = [] \<and> d \<notin> fst ` fst ` set (terms_by_domain_lang m) \<longrightarrow>
            preprocess_text conv m text d l = Inl (ValueError_domain_not_found d (get_domains m)) \<and>
            sorted (get_domains m) \<and> distinct (get_domains m) \<and>
            set (get_domains m) = fst ` fst ` set (terms_by_domain_lang m)) \<and>
         (get_terms_for_domain_lang conv m d l = [] \<and> d \<in> fst ` fst ` set (terms_by_domain_lang m) \<longrightarrow>
            (\<exists>langs. preprocess_text conv m text d l = Inl (ValueError_no_terminology d l langs) \<and>
                     set langs = {l'. (d, l') \<in> fst ` set (terms_by_domain_lang m)})) \<and>
         (get_terms_for_domain_lang conv m d l \<noteq> [] \<longrightarrow>
            (\<exists>out reps. preprocess_text conv m text d l = Inr (out, reps)))"
proof -
  from assms obtain es where keys: "set (domains_languages m) = file_keys es"
    "fst ` set (terms_by_domain_lang m) = file_keys es"
    by (rule loaded_index)
  have same: "fst ` set (terms_by_domain_lang m) = set (domains_languages m)"
    using keys by simp
  have doms: "sorted (get_domains m)" "distinct (get_domains m)"
    "set (get_domains m) = fst ` fst ` set (terms_by_domain_lang m)"
    by (simp_all add: get_domains_def same)
  have c1: "preprocess_text conv m text d l = Inl (ValueError_domain_not_found d (get_domains m))"
    if "get_terms_for_domain_lang conv m d l = []" "d \<notin> fst ` fst ` set (terms_by_domain_lang m)"
    using that by (simp add: preprocess_text_empty same)
  have c2: "\<exists>langs. preprocess_text conv m text d l = Inl (ValueError_no_terminology d l langs) \<and>
                     set langs = {l'. (d, l') \<in> fst ` set (terms_by_domain_lang m)}"
    if "get_terms_for_domain_lang conv m d l = []" "d \<in> fst ` fst ` set (terms_by_domain_lang m)"
    using that available_langs [of d "domains_languages m"]
    by (simp add: preprocess_text_empty same)
  have c3: "\<exists>out reps. preprocess_text conv m text d l = Inr (out, reps)"
    if "get_terms_for_domain_lang conv m d l \<noteq> []"
    using that by (simp add: preprocess_text_nonempty)
  show ?thesis using doms c1 c2 c3 by blast
qed


theorem preprocess_text_diagnostics_witness:
  "load_terminologies twi_conv (Some agric_dir) = Inr agric_store \<and>
   get_terms_for_domain_lang twi_conv agric_store ''x'' ''twi'' = [] \<and>
   preprocess_text twi_conv agric_store ''abattoir'' ''x'' ''twi'' =
     Inl (ValueError_domain_not_found ''x'' [''agric'']) \<and>
   get_terms_for_domain_lang twi_conv agric_store ''agric'' ''zzz'' = [] \<and>
   (\<exists>langs. preprocess_text twi_conv agric_store ''abattoir'' ''agric'' ''zzz'' =
              Inl (ValueError_no_terminology ''agric'' ''zzz'' langs) \<and> set langs = {''twi''}) \<and>
   get_terms_for_domain_lang twi_conv agric_store ''agric'' ''ak'' \<noteq> [] \<and>
   (\<exists>out reps. preprocess_text twi_conv agric_store ''abattoir'' ''agric'' ''ak'' = Inr (out, reps))"
proof -
  have ld: "load_terminologies twi_conv (Some agric_dir) = Inr agric_store"
    by code_simp
  have keys: "fst ` set (terms_by_domain_lang agric_store) = {(''agric'', ''twi'')}"
    by (simp add: agric_store_def)
  have e1: "get_terms_for_domain_lang twi_conv agric_store ''x'' ''twi'' = []"
    by code_simp
  have e2: "get_terms_for_domain_lang twi_conv agric_store ''agric'' ''zzz'' = []"
    by code_simp
  have e3: "get_terms_for_domain_lang twi_conv agric_store ''agric'' ''ak'' \<noteq> []"
    by code_simp
  have d: "get_domains agric_store = [''agric'']"
    by code_simp
  have l: "{l'. (''agric'', l') \<in> fst ` set (terms_by_domain_lang agric_store)} = {''twi''}"
    unfolding keys by auto
  show ?thesis
    using preprocess_text_diagnostics [OF ld, of "''x''" "''twi''" "''abattoir''"]
      preprocess_text_diagnostics [OF ld, of "''agric''" "''zzz''" "''abattoir''"]
      preprocess_text_diagnostics [OF ld, of "''agric''" "''ak''" "''abattoir''"]
      ld e1 e2 e3 d l keys
    by simp
qed

subsection \<open>A terminology file without rows\<close>

text \<open>
  Claim C10. When the file of a pair \<open>(d, l)\<close> holds no term row (and it is the only file
  of that pair), the load stores the empty bucket under \<open>(d, l)\<close>; then
  \<open>get_terms_for_domain_lang\<close> returns the empty mapping although the pair is in the index,
  and \<open>preprocess_text\<close> for that very pair fails with the no-terminology error, whose list
  of available languages contains the requested language \<open>l\<close> itself.
\<close>

theorem empty_file_no_terminology:
  assumes "load_terminologies conv (Some es) = Inr m"
    and "(Some (d, l), []) \<in> set es"
    and "\<forall>e\<in>set es. fst e = Some (d, l) \<longrightarrow> snd e = []"
  shows "map_of (terms_by_domain_lang m) (d, l) = Some [] \<and>
         get_terms_for_domain_lang conv m d l = [] \<and>
         (\<exists>langs. preprocess_text conv m text d l = Inl (ValueError_no_terminology d l langs) \<and>
                  l \<in> set langs)"
proof -
  from assms(1) have lf: "load_files conv es
       \<lparr> terms_by_domain_lang = [], domains_languages = [], available_google_languages = [] \<rparr> = Inr m"
    by (simp add: load_terminologies_def)
  have bucket: "map_of (terms_by_domain_lang m) (d, l) = Some []"
    using load_files_map_of_file [OF lf assms(2,3)] by (simp add: rows_dict_def)
  then have terms: "get_terms_for_domain_lang conv m d l = []"
    by (simp add: get_terms_for_domain_lang_def)
  have "(d, l) \<in> file_keys es"
    using assms(2) by (auto simp: file_keys_def)
  then have pair: "(d, l) \<in> set (domains_languages m)"
    using load_files_domains_languages [OF lf] by simp
  then have dom: "d \<in> fst ` set (domains_languages m)"
    by force
  have "l \<in> set (map snd (filter (\<lambda>(d', l'). d' = d) (domains_languages m)))"
    using pair by force
  then show ?thesis
    using bucket terms dom by (simp add: preprocess_text_empty)
qed

theorem empty_file_no_terminology_witness:
  "load_terminologies twi_conv (Some empty_file_dir) = Inr empty_file_store \<and>
   map_of (terms_by_domain_lang empty_file_store) (''agric'', ''ewe'') = Some [] \<and>
   get_terms_for_domain_lang twi_conv empty_file_store ''agric'' ''ewe'' = [] \<and>
   preprocess_text twi_conv empty_file_store ''the abattoir'' ''agric'' ''ewe'' =
     Inl (ValueError_no_terminology ''agric'' ''ewe'' [''twi'', ''ewe''])"
proof -
  have ld: "load_terminologies twi_conv (Some empty_file_dir) = Inr empty_file_store"
    by code_simp
  have pp: "preprocess_text twi_conv empty_file_store ''the abattoir'' ''agric'' ''ewe'' =
               Inl (ValueError_no_terminology ''agric'' ''ewe'' [''twi'', ''ewe''])"
    by code_simp
  have f: "(Some (''agric'', ''ewe''), []) \<in> set empty_file_dir"
    by (simp add: empty_file_dir_def)
  have u: "\<forall>e\<in>set empty_file_dir. fst e = Some (''agric'', ''ewe'') \<longrightarrow> snd e = []"
    by (simp add: empty_file_dir_def)
  show ?thesis
    using empty_file_no_terminology [OF ld f u, of "''the abattoir''"] ld pp by simp
qed

subsection \<open>Term text is a unique key; the last row wins\<close>

text \<open>
  Claim C7. After a load, in every bucket of the index the keys are pairwise distinct and
  each key is the (lowercased, trimmed) term text of the Term stored under it, so a bucket
  holds exactly one Term per term text. When the file of a pair holds several rows with the
  same term text, the Term stored is the one built from the last such row (the row \<open>r\<close>
  after which no row has the same text). Duplicates never make the load fail: a directory
  whose rows are all readable (the id converts to an integer and the three columns are
  there) loads successfully, whatever term texts repeat.
\<close>

theorem term_text_unique_last_write_wins:
  "(load_terminologies conv dir = Inr m \<longrightarrow>
      (\<forall>(k, td)\<in>set (terms_by_domain_lang m).
          distinct (map fst td) \<and> (\<forall>(key, t)\<in>set td. t_term t = key))) \<and>
   (load_terminologies conv (Some es) = Inr m \<and> (Some (d, l), pre @ r # post) \<in> set es \<and>
    (\<forall>e\<in>set es. fst e = Some (d, l) \<longrightarrow> snd e = pre @ r # post) \<and>
    (\<forall>r'\<in>set post. row_key r' \<noteq> row_key r) \<longrightarrow>
      (\<exists>td term_id term_cell translation_cell.
          id_of r = Some term_id \<and> row_term r = Some term_cell \<and>
          row_translation r = Some translation_cell \<and>
          map_of (terms_by_domain_lang m) (d, l) = Some td \<and>
          map_of td (row_key r) =
            Some (make_term d l (conv l) term_id term_cell translation_cell))) \<and>
   ((\<forall>e\<in>set es. \<forall>r\<in>set (snd e). row_ok r) \<longrightarrow>
      (\<exists>m'. load_terminologies conv (Some es) = Inr m'))"
  using loaded_buckets [of conv dir m] loaded_last_row [of conv es m d l pre r post]
    load_succeeds [of es conv]
  by blast

theorem term_text_unique_last_write_wins_witness:
  "load_terminologies twi_conv (Some duplicate_dir) = Inr duplicate_store \<and>
   row_key (mk_row 1 ''Abattoir '' ''X'') = ''abattoir'' \<and>
   row_key (mk_row 3 ''abattoir'' ''Z'') = ''abattoir'' \<and>
   map (\<lambda>(k, td). map fst td) (terms_by_domain_lang duplicate_store) =
     [[''abattoir'', ''acreage'']] \<and>
   (\<exists>td. map_of (terms_by_domain_lang duplicate_store) (''agric'', ''twi'') = Some td \<and>
         map_of td ''abattoir'' = Some (agric_term ''twi'' 3 ''abattoir'' ''Z''))"
proof -
  have ld: "load_terminologies twi_conv (Some duplicate_dir) = Inr duplicate_store"
    by code_simp
  have k1: "row_key (mk_row 1 ''Abattoir '' ''X'') = ''abattoir''"
    by code_simp
  have k3: "row_key (mk_row 3 ''abattoir'' ''Z'') = ''abattoir''"
    by code_simp
  have cells: "id_of (mk_row 3 ''abattoir'' ''Z'') = Some 3"
    "row_term (mk_row 3 ''abattoir'' ''Z'') = Some (StrCell ''abattoir'')"
    "row_translation (mk_row 3 ''abattoir'' ''Z'') = Some (StrCell ''Z'')"
    by (simp_all add: mk_row_def id_of_def py_int_def)
  have mt: "make_term ''agric'' ''twi'' (twi_conv ''twi'') 3 (StrCell ''abattoir'') (StrCell ''Z'') =
              agric_term ''twi'' 3 ''abattoir'' ''Z''"
    by code_simp
  have ks: "map (\<lambda>(k, td). map fst td) (terms_by_domain_lang duplicate_store) =
              [[''abattoir'', ''acreage'']]"
    by (simp add: duplicate_store_def)
  have f: "(Some (''agric'', ''twi''),
            [mk_row 1 ''Abattoir '' ''X'', mk_row 2 ''acreage'' ''Y''] @ mk_row 3 ''abattoir'' ''Z'' # [])
           \<in> set duplicate_dir"
    by (simp add: duplicate_dir_def)
  have u: "\<forall>e\<in>set duplicate_dir. fst e = Some (''agric'', ''twi'') \<longrightarrow>
             snd e = [mk_row 1 ''Abattoir '' ''X'', mk_row 2 ''acreage'' ''Y''] @ mk_row 3 ''abattoir'' ''Z'' # []"
    by (simp add: duplicate_dir_def)
  have ids: "\<forall>e\<in>set duplicate_dir. \<forall>r\<in>set (snd e). row_ok r"
    by (simp add: duplicate_dir_def mk_row_def row_ok_def id_of_def py_int_def)
  have "\<exists>td term_id term_cell translation_cell.
          id_of (mk_row 3 ''abattoir'' ''Z'') = Some term_id \<and>
          row_term (mk_row 3 ''abattoir'' ''Z'') = Some term_cell \<and>
          row_translation (mk_row 3 ''abattoir'' ''Z'') = Some translation_cell \<and>
          map_of (terms_by_domain_lang duplicate_store) (''agric'', ''twi'') = Some td \<and>
          map_of td (row_key (mk_row 3 ''abattoir'' ''Z'')) =
            Some (make_term ''agric'' ''twi'' (twi_conv ''twi'') term_id term_cell translation_cell)"
    using term_text_unique_last_write_wins [of twi_conv "Some duplicate_dir" duplicate_store
        duplicate_dir "''agric''" "''twi''" "[mk_row 1 ''Abattoir '' ''X'', mk_row 2 ''acreage'' ''Y'']"
        "mk_row 3 ''abattoir'' ''Z''" "[]"]
      ld f u
    by simp
  then have "\<exists>td. map_of (terms_by_domain_lang duplicate_store) (''agric'', ''twi'') = Some td \<and>
         map_of td ''abattoir'' = Some (agric_term ''twi'' 3 ''abattoir'' ''Z'')"
    using cells k3 mt by auto
  then show ?thesis
    using ld k1 k3 ks by simp
qed

subsection \<open>Rows with missing cells\<close>

text \<open>
  Claim C6 says that every row with a missing id, term or translation makes the load fail
  with an error citing file and row, and that no such row is ever loaded. The code has no
  validation of rows. At the directory \<open>nan_dir\<close>, whose file has a row without translation
  and a row without term, the load succeeds and stores both rows, with the text \<^verbatim>\<open>nan\<close>
  in the place of the missing cell.
\<close>

theorem malformed_row_loaded_counterexample:
  "row_translation row_no_translation = Some NaN \<and>
   row_term row_no_term = Some NaN \<and>
   nan_dir = [(Some (''agric'', ''twi''), [row_no_translation, row_no_term])] \<and>
   load_terminologies twi_conv (Some nan_dir) = Inr nan_store \<and>
   map_of (terms_by_domain_lang nan_store) (''agric'', ''twi'') =
     Some [(''abattoir'', agric_term ''twi'' 1 ''abattoir'' ''nan''),
           (''nan'', agric_term ''twi'' 2 ''nan'' ''Y'')]"
  by code_simp

text \<open>
  Claim C6, amended. A row whose id is missing makes the load fail, and no store results:
  when it is the first row of its file that cannot be read, the error is the
  \<^verbatim>\<open>ValueError\<close> of \<^verbatim>\<open>int(nan)\<close>, which names neither the file nor the row. A row whose
  term or translation is missing does not make the load fail: it is loaded like any other
  row, and the Term stored for it has the text \<^verbatim>\<open>nan\<close> as its term, respectively as its
  translation. A directory whose rows all have an id that \<^verbatim>\<open>int\<close> converts, and whose
  files have the three columns, is loaded, whatever cells of term and translation are
  empty.
\<close>

theorem missing_id_fails_missing_text_is_nan:
  "(rows_ok pre \<and> row_id r = Some NaN \<longrightarrow>
      load_rows d l g (pre @ r # post) td0 = Inl ValueError_int_of_nan) \<and>
   ((Some k, rows) \<in> set es \<and> (\<exists>r'\<in>set rows. row_id r' = Some NaN) \<longrightarrow>
      (\<exists>e. load_terminologies conv (Some es) = Inl e)) \<and>
   (load_terminologies conv (Some es) = Inr m \<and> (Some (d, l), pre @ r # post) \<in> set es \<and>
    (\<forall>e\<in>set es. fst e = Some (d, l) \<longrightarrow> snd e = pre @ r # post) \<and>
    (\<forall>r'\<in>set post. row_key r' \<noteq> row_key r) \<longrightarrow>
      (\<exists>td t. map_of (terms_by_domain_lang m) (d, l) = Some td \<and>
              map_of td (row_key r) = Some t \<and>
              (row_term r = Some NaN \<longrightarrow> t_term t = ''nan'') \<and>
              (row_translation r = Some NaN \<longrightarrow> t_translation t = ''nan''))) \<and>
   ((\<forall>e\<in>set es. \<forall>r'\<in>set (snd e).
        id_of r' \<noteq> None \<and> row_term r' \<noteq> None \<and> row_translation r' \<noteq> None) \<longrightarrow>
      (\<exists>m'. load_terminologies conv (Some es) = Inr m'))"
proof -
  have c: "\<exists>td t. map_of (terms_by_domain_lang m) (d, l) = Some td \<and>
              map_of td (row_key r) = Some t \<and>
              (row_term r = Some NaN \<longrightarrow> t_term t = ''nan'') \<and>
              (row_translation r = Some NaN \<longrightarrow> t_translation t = ''nan'')"
    if h: "load_terminologies conv (Some es) = Inr m" "(Some (d, l), pre @ r # post) \<in> set es"
      "\<forall>e\<in>set es. fst e = Some (d, l) \<longrightarrow> snd e = pre @ r # post"
      "\<forall>r'\<in>set post. row_key r' \<noteq> row_key r"
  proof -
    obtain td term_id term_cell translation_cell where td:
      "row_term r = Some term_cell" "row_translation r = Some translation_cell"
      "map_of (terms_by_domain_lang m) (d, l) = Some td"
      "map_of td (row_key r) = Some (make_term d l (conv l) term_id term_cell translation_cell)"
      using loaded_last_row [OF h] by blast
    let ?t = "make_term d l (conv l) term_id term_cell translation_cell"
    have "row_term r = Some NaN \<longrightarrow> t_term ?t = ''nan''"
      using td(1) by (auto simp: make_term_def py_str_nan)
    moreover have "row_translation r = Some NaN \<longrightarrow> t_translation ?t = ''nan''"
      using td(2) by (auto simp: make_term_def py_str_nan)
    ultimately show ?thesis using td(3,4) by blast
  qed
  have b: "\<exists>e. load_terminologies conv (Some es) = Inl e"
    if "(Some k, rows) \<in> set es" "\<exists>r'\<in>set rows. row_id r' = Some NaN"
    using that load_fails [of k rows es conv] nan_id_not_ok by blast
  have d: "\<exists>m'. load_terminologies conv (Some es) = Inr m'"
    if "\<forall>e\<in>set es. \<forall>r'\<in>set (snd e).
          id_of r' \<noteq> None \<and> row_term r' \<noteq> None \<and> row_translation r' \<noteq> None"
    using that load_succeeds [of es conv] by (simp add: row_ok_def)
  show ?thesis
    using load_rows_first_nan [of pre r d l g post td0] b c d by blast
qed

theorem missing_id_fails_missing_text_is_nan_witness:
  "row_id row_no_id = Some NaN \<and>
   load_rows ''agric'' ''twi'' ''ak'' ([mk_row 1 ''abattoir'' ''X''] @ row_no_id # []) [] =
     Inl ValueError_int_of_nan \<and>
   load_terminologies twi_conv (Some no_id_dir) = Inl ValueError_int_of_nan \<and>
   load_terminologies twi_conv (Some nan_dir) = Inr nan_store \<and>
   (\<exists>td t. map_of (terms_by_domain_lang nan_store) (''agric'', ''twi'') = Some td \<and>
           map_of td ''nan'' = Some t \<and> t_term t = ''nan'') \<and>
   (\<exists>td t. map_of (terms_by_domain_lang nan_store) (''agric'', ''twi'') = Some td \<and>
           map_of td ''abattoir'' = Some t \<and> t_translation t = ''nan'')"
proof -
  have nid: "row_id row_no_id = Some NaN"
    by (simp add: row_no_id_def)
  have okpre: "rows_ok [mk_row 1 ''abattoir'' ''X'']"
    by (simp add: rows_ok_def row_ok_def id_of_def py_int_def mk_row_def)
  have f1: "(Some (''agric'', ''twi''), [mk_row 1 ''abattoir'' ''X'', row_no_id]) \<in> set no_id_dir"
    by (simp add: no_id_dir_def)
  have b1: "\<exists>r'\<in>set [mk_row 1 ''abattoir'' ''X'', row_no_id]. row_id r' = Some NaN"
    using nid by simp
  have fails: "load_terminologies twi_conv (Some no_id_dir) = Inl ValueError_int_of_nan"
    by code_simp
  have ld: "load_terminologies twi_conv (Some nan_dir) = Inr nan_store"
    by code_simp
  have f2: "(Some (''agric'', ''twi''), [row_no_translation] @ row_no_term # []) \<in> set nan_dir"
    by (simp add: nan_dir_def)
  have u2: "\<forall>e\<in>set nan_dir. fst e = Some (''agric'', ''twi'') \<longrightarrow>
              snd e = [row_no_translation] @ row_no_term # []"
    by (simp add: nan_dir_def)
  have f3: "(Some (''agric'', ''twi''), [] @ row_no_translation # [row_no_term]) \<in> set nan_dir"
    by (simp add: nan_dir_def)
  have u3: "\<forall>e\<in>set nan_dir. fst e = Some (''agric'', ''twi'') \<longrightarrow>
              snd e = [] @ row_no_translation # [row_no_term]"
    by (simp add: nan_dir_def)
  have k: "row_key row_no_term = ''nan''" "row_key row_no_translation = ''abattoir''"
    by code_simp+
  have l3: "\<forall>r'\<in>set [row_no_term]. row_key r' \<noteq> row_key row_no_translation"
    using k by simp
  have cells: "row_term row_no_term = Some NaN" "row_translation row_no_translation = Some NaN"
    by (simp_all add: row_no_term_def row_no_translation_def)
  have ids: "\<forall>e\<in>set nan_dir. \<forall>r'\<in>set (snd e).
      id_of r' \<noteq> None \<and> row_term r' \<noteq> None \<and> row_translation r' \<noteq> None"
    by (simp add: nan_dir_def row_no_term_def row_no_translation_def id_of_def py_int_def)
  note t1 = missing_id_fails_missing_text_is_nan [of "[mk_row 1 ''abattoir'' ''X'']" row_no_id
      "''agric''" "''twi''" "''ak''" "[]" "[]" "(''agric'', ''twi'')"
      "[mk_row 1 ''abattoir'' ''X'', row_no_id]" no_id_dir twi_conv]
  note t2 = missing_id_fails_missing_text_is_nan [of "[row_no_translation]" row_no_term
      "''agric''" "''twi''" "''ak''" "[]" "[]" "(''agric'', ''twi'')" "[]" nan_dir twi_conv nan_store]
  note t3 = missing_id_fails_missing_text_is_nan [of "[]" row_no_translation
      "''agric''" "''twi''" "''ak''" "[row_no_term]" "[]" "(''agric'', ''twi'')" "[]" nan_dir twi_conv
      nan_store]
  from t1 okpre nid
  have a: "load_rows ''agric'' ''twi'' ''ak'' ([mk_row 1 ''abattoir'' ''X''] @ row_no_id # []) [] =
     Inl ValueError_int_of_nan"
    by blast
  from t1 f1 b1 have "\<exists>e. load_terminologies twi_conv (Some no_id_dir) = Inl e"
    by blast
  from t2 ld f2 u2 cells k
  have c2: "\<exists>td t. map_of (terms_by_domain_lang nan_store) (''agric'', ''twi'') = Some td \<and>
           map_of td ''nan'' = Some t \<and> t_term t = ''nan''"
    by auto
  from t3 ld f3 u3 l3 cells k
  have c3: "\<exists>td t. map_of (terms_by_domain_lang nan_store) (''agric'', ''twi'') = Some td \<and>
           map_of td ''abattoir'' = Some t \<and> t_translation t = ''nan''"
    by auto
  from t2 ids have "\<exists>m'. load_terminologies twi_conv (Some nan_dir) = Inr m'"
    by blast
  show ?thesis using nid a fails ld c2 c3 by simp
qed

subsection \<open>The three resolution strategies\<close>

text \<open>
  Claim C5 ends with: when \<^verbatim>\<open>twi\<close> normalizes to \<^verbatim>\<open>ak\<close>, the calls for
  \<open>(agric, ak)\<close> and \<open>(agric, twi)\<close> return the identical term set. The exact match comes
  first, so a store that holds a file for each of the two codes answers each call from its
  own bucket, and the two term sets differ.
\<close>

theorem same_code_different_terms_counterexample:
  "twi_conv ''twi'' = ''ak'' \<and>
   load_terminologies twi_conv (Some both_dir) = Inr both_store \<and>
   get_terms_for_domain_lang twi_conv both_store ''agric'' ''ak'' =
     [(''abattoir'', agric_term ''ak'' 1 ''abattoir'' ''A'')] \<and>
   get_terms_for_domain_lang twi_conv both_store ''agric'' ''twi'' =
     [(''abattoir'', agric_term ''twi'' 1 ''abattoir'' ''X'')] \<and>
   get_terms_for_domain_lang twi_conv both_store ''agric'' ''ak'' \<noteq>
     get_terms_for_domain_lang twi_conv both_store ''agric'' ''twi''"
  by code_simp

text \<open>
  Claim C5, amended. \<open>get_terms_for_domain_lang\<close> tries in order: the exact pair; for a
  language of length 2, the first stored pair of the domain whose language normalizes to
  it; for a language of length 3, the first stored pair of the domain whose normalized
  language equals the normalized input; and it returns the empty mapping, raising nothing,
  when no strategy succeeds. When a 3-letter code \<open>l3\<close> normalizes to the 2-letter code
  \<open>l2\<close> (which the normalizer leaves unchanged, as \<open>convert_lang_code\<close> does for every
  code of length 2) and the stored languages of the domain that normalize to \<open>l2\<close> are
  all one language \<open>l0\<close>, whichever it is, the calls for \<open>l2\<close> and for \<open>l3\<close> return the same
  term set. So the two calls differ only in a store that holds two different languages of
  the domain with the same normal form.
\<close>

theorem get_terms_resolution_order:
  "(map_of (terms_by_domain_lang m) (d, l) = Some td \<longrightarrow>
      get_terms_for_domain_lang conv m d l = td) \<and>
   (map_of (terms_by_domain_lang m) (d, l) = None \<and> length l = 2 \<longrightarrow>
      get_terms_for_domain_lang conv m d l =
        (case find (\<lambda>((d', l'), terms). d' = d \<and> conv l' = l) (terms_by_domain_lang m) of
           Some (k, terms) \<Rightarrow> terms | None \<Rightarrow> [])) \<and>
   (map_of (terms_by_domain_lang m) (d, l) = None \<and> length l = 3 \<longrightarrow>
      get_terms_for_domain_lang conv m d l =
        (case find (\<lambda>((d', l'), terms). d' = d \<and> conv l' = conv l) (terms_by_domain_lang m) of
           Some (k, terms) \<Rightarrow> terms | None \<Rightarrow> [])) \<and>
   (map_of (terms_by_domain_lang m) (d, l) = None \<and> length l \<noteq> 2 \<and> length l \<noteq> 3 \<longrightarrow>
      get_terms_for_domain_lang conv m d l = []) \<and>
   (length l2 = 2 \<and> length l3 = 3 \<and> conv l3 = l2 \<and> conv l2 = l2 \<and>
    (\<forall>((d', l'), td')\<in>set (terms_by_domain_lang m). d' = d \<and> conv l' = l2 \<longrightarrow> l' = l0) \<longrightarrow>
      get_terms_for_domain_lang conv m d l2 = get_terms_for_domain_lang conv m d l3) \<and>
   (length l2 = 2 \<and> length l3 = 3 \<and> convert_lang_code tbl l3 = l2 \<and>
    (\<forall>((d', l'), td')\<in>set (terms_by_domain_lang m).
        d' = d \<and> convert_lang_code tbl l' = l2 \<longrightarrow> l' = l0) \<longrightarrow>
      get_terms_for_domain_lang (convert_lang_code tbl) m d l2 =
      get_terms_for_domain_lang (convert_lang_code tbl) m d l3)"
  using get_terms_exact [of m d l td conv] get_terms_two [of m d l conv]
    get_terms_three [of m d l conv] get_terms_other [of m d l conv]
    get_terms_same_normal_form [of l2 l3 conv m d l0]
    get_terms_same_normal_form [of l2 l3 "convert_lang_code tbl" m d l0]
    convert_lang_code_two [of l2 tbl]
  by blast

theorem get_terms_resolution_order_witness:
  "get_terms_for_domain_lang twi_conv agric_store ''agric'' ''twi'' =
     [(''abattoir'', agric_term ''twi'' 1 ''abattoir'' ''X''),
      (''acreage'', agric_term ''twi'' 2 ''acreage'' ''Y'')] \<and>
   get_terms_for_domain_lang twi_conv agric_store ''agric'' ''ak'' =
     get_terms_for_domain_lang twi_conv agric_store ''agric'' ''twi'' \<and>
   get_terms_for_domain_lang (convert_lang_code [(''twi'', ''ak'')]) ak_store ''agric'' ''ak'' =
     get_terms_for_domain_lang (convert_lang_code [(''twi'', ''ak'')]) ak_store ''agric'' ''twi'' \<and>
   get_terms_for_domain_lang (convert_lang_code [(''twi'', ''ak'')]) ak_store ''agric'' ''twi'' =
     [(''abattoir'', agric_term ''ak'' 1 ''abattoir'' ''A'')] \<and>
   get_terms_for_domain_lang twi_conv both_store ''agric'' ''aka'' = [] \<and>
   get_terms_for_domain_lang twi_conv agric_store ''agric'' ''akan'' = []"
proof -
  let ?bucket = "[(''abattoir'', agric_term ''twi'' 1 ''abattoir'' ''X''),
      (''acreage'', agric_term ''twi'' 2 ''acreage'' ''Y'')]"
  let ?cv = "convert_lang_code [(''twi'', ''ak'')]"
  have e1: "map_of (terms_by_domain_lang agric_store) (''agric'', ''twi'') = Some ?bucket"
    by (simp add: agric_store_def)
  have e3: "map_of (terms_by_domain_lang both_store) (''agric'', ''aka'') = None"
    by (simp add: both_store_def)
  have f3: "find (\<lambda>((d', l'), terms). d' = ''agric'' \<and> twi_conv l' = twi_conv ''aka'')
              (terms_by_domain_lang both_store) = None"
    by code_simp
  have e4: "map_of (terms_by_domain_lang agric_store) (''agric'', ''akan'') = None"
    by (simp add: agric_store_def)
  have c: "twi_conv ''twi'' = ''ak''" "twi_conv ''ak'' = ''ak''" "?cv ''twi'' = ''ak''"
    by code_simp+
  have only: "\<forall>((d', l'), td')\<in>set (terms_by_domain_lang agric_store).
                d' = ''agric'' \<and> twi_conv l' = ''ak'' \<longrightarrow> l' = ''twi''"
    by (simp add: agric_store_def)
  have only_ak: "\<forall>((d', l'), td')\<in>set (terms_by_domain_lang ak_store).
                d' = ''agric'' \<and> ?cv l' = ''ak'' \<longrightarrow> l' = ''ak''"
    by (simp add: ak_store_def)
  have len: "length ''ak'' = 2" "length ''twi'' = 3" "length ''aka'' = 3"
    "length ''akan'' \<noteq> 2" "length ''akan'' \<noteq> 3"
    by simp_all
  have via_c: "get_terms_for_domain_lang ?cv ak_store ''agric'' ''twi'' =
     [(''abattoir'', agric_term ''ak'' 1 ''abattoir'' ''A'')]"
    by code_simp
  note t1 = get_terms_resolution_order [of agric_store "''agric''" "''twi''" ?bucket twi_conv
        "''ak''" "''twi''" "''twi''"]
  note t2 = get_terms_resolution_order [of both_store "''agric''" "''aka''" "[]" twi_conv]
  note t3 = get_terms_resolution_order [of agric_store "''agric''" "''akan''" "[]" twi_conv]
  note t4 = get_terms_resolution_order [of ak_store "''agric''" "''twi''" "[]" ?cv
        "''ak''" "''twi''" "''ak''" "[(''twi'', ''ak'')]"]
  from t1 e1 have a: "get_terms_for_domain_lang twi_conv agric_store ''agric'' ''twi'' = ?bucket"
    by blast
  from t1 len c only
  have b: "get_terms_for_domain_lang twi_conv agric_store ''agric'' ''ak'' =
           get_terms_for_domain_lang twi_conv agric_store ''agric'' ''twi''"
    by blast
  from t4 len c only_ak
  have b2: "get_terms_for_domain_lang ?cv ak_store ''agric'' ''ak'' =
            get_terms_for_domain_lang ?cv ak_store ''agric'' ''twi''"
    by blast
  from t2 e3 len have "get_terms_for_domain_lang twi_conv both_store ''agric'' ''aka'' =
        (case find (\<lambda>((d', l'), terms). d' = ''agric'' \<and> twi_conv l' = twi_conv ''aka'')
                (terms_by_domain_lang both_store) of
           Some (k, terms) \<Rightarrow> terms | None \<Rightarrow> [])"
    by blast
  with f3 have c3: "get_terms_for_domain_lang twi_conv both_store ''agric'' ''aka'' = []"
    by simp
  from t3 e4 len have d: "get_terms_for_domain_lang twi_conv agric_store ''agric'' ''akan'' = []"
    by blast
  show ?thesis using a b b2 via_c c3 d by simp
qed

subsection \<open>Longest term first\<close>

text \<open>
  Claim C2. \<open>preprocess_text\<close> substitutes the terms of the bucket in descending order of
  the length of their text. The sorted list holds exactly the terms of the bucket and no
  term stands in it before a longer one. When the resolved term set is not empty,
  \<open>preprocess_text\<close> is the left fold of the single-term substitution over that list: it
  walks the sorted list from its head, every term scanning the text as the terms before it
  have rewritten it, and one round replaces each match of its term by the placeholder and
  records the term when there was a match. So a compound term is replaced before any
  shorter term it contains: with \<^verbatim>\<open>acid\<close> (id 2) listed in the file before \<^verbatim>\<open>acid rain\<close>
  (id 1), the text \<^verbatim>\<open>acid rain falls\<close> preprocesses to \<^verbatim>\<open><1> falls\<close>, with the single map
  entry of \<^verbatim>\<open><1>\<close>; and with a third term \<^verbatim>\<open>rain\<close> (id 3) the text
  \<^verbatim>\<open>rain, acid and acid rain\<close> preprocesses to \<^verbatim>\<open><3>, <2> and <1>\<close>.
\<close>

theorem longest_term_first:
  "sorted_wrt (\<lambda>a b. length (t_term b) \<le> length (t_term a)) (sorted_terms td) \<and>
   set (sorted_terms td) = snd ` set td \<and>
   length (sorted_terms td) = length td \<and>
   (get_terms_for_domain_lang conv m d l \<noteq> [] \<longrightarrow>
      preprocess_text conv m inp d l =
        Inr (foldl substitute_step (inp, [])
               (sorted_terms (get_terms_for_domain_lang conv m d l)))) \<and>
   substitute_step (inp, reps) t =
     (render_pieces (placeholder t) (re_scan (t_term t) None inp),
      if has_match (re_scan (t_term t) None inp) then AList.update (placeholder t) t reps
      else reps) \<and>
   load_terminologies twi_conv
     (Some [(Some (''agric'', ''twi''), [mk_row 2 ''acid'' ''B'', mk_row 1 ''acid rain'' ''A''])]) =
     Inr acid_store \<and>
   sorted_terms (get_terms_for_domain_lang twi_conv acid_store ''agric'' ''twi'') =
     [agric_term ''twi'' 1 ''acid rain'' ''A'', agric_term ''twi'' 2 ''acid'' ''B''] \<and>
   preprocess_text twi_conv acid_store ''acid rain falls'' ''agric'' ''twi'' =
     Inr (''<1> falls'', [(''<1>'', agric_term ''twi'' 1 ''acid rain'' ''A'')]) \<and>
   preprocess_text twi_conv rain_store ''rain, acid and acid rain'' ''agric'' ''twi'' =
     Inr (''<3>, <2> and <1>'',
          [(''<1>'', agric_term ''twi'' 1 ''acid rain'' ''A''),
           (''<2>'', agric_term ''twi'' 2 ''acid'' ''B''),
           (''<3>'', agric_term ''twi'' 3 ''rain'' ''C'')])"
proof -
  have "load_terminologies twi_conv
     (Some [(Some (''agric'', ''twi''), [mk_row 2 ''acid'' ''B'', mk_row 1 ''acid rain'' ''A''])]) =
     Inr acid_store"
    by code_simp
  moreover have "sorted_terms (get_terms_for_domain_lang twi_conv acid_store ''agric'' ''twi'') =
     [agric_term ''twi'' 1 ''acid rain'' ''A'', agric_term ''twi'' 2 ''acid'' ''B'']"
    by code_simp
  moreover have "preprocess_text twi_conv acid_store ''acid rain falls'' ''agric'' ''twi'' =
     Inr (''<1> falls'', [(''<1>'', agric_term ''twi'' 1 ''acid rain'' ''A'')])"
    by code_simp
  moreover have "preprocess_text twi_conv rain_store ''rain, acid and acid rain'' ''agric'' ''twi'' =
     Inr (''<3>, <2> and <1>'',
          [(''<1>'', agric_term ''twi'' 1 ''acid rain'' ''A''),
           (''<2>'', agric_term ''twi'' 2 ''acid'' ''B''),
           (''<3>'', agric_term ''twi'' 3 ''rain'' ''C'')])"
    by code_simp
  moreover have "get_terms_for_domain_lang conv m d l \<noteq> [] \<longrightarrow>
      preprocess_text conv m inp d l =
        Inr (foldl substitute_step (inp, [])
               (sorted_terms (get_terms_for_domain_lang conv m d l)))"
    by (simp add: preprocess_text_nonempty substitute_foldl)
  moreover have "substitute_step (inp, reps) t =
     (render_pieces (placeholder t) (re_scan (t_term t) None inp),
      if has_match (re_scan (t_term t) None inp) then AList.update (placeholder t) t reps
      else reps)"
    by (simp add: substitute_step_def sub_pieces_eq)
  ultimately show ?thesis
    using sorted_terms_descending [of td] set_sorted_terms [of td] length_sorted_terms [of td]
    by simp
qed

theorem longest_term_first_witness:
  "get_terms_for_domain_lang twi_conv rain_store ''agric'' ''ak'' \<noteq> [] \<and>
   sorted_terms (get_terms_for_domain_lang twi_conv rain_store ''agric'' ''ak'') =
     [agric_term ''twi'' 1 ''acid rain'' ''A'', agric_term ''twi'' 2 ''acid'' ''B'',
      agric_term ''twi'' 3 ''rain'' ''C''] \<and>
   preprocess_text twi_conv rain_store ''acid rain'' ''agric'' ''ak'' =
     Inr (foldl substitute_step (''acid rain'', [])
            [agric_term ''twi'' 1 ''acid rain'' ''A'', agric_term ''twi'' 2 ''acid'' ''B'',
             agric_term ''twi'' 3 ''rain'' ''C'']) \<and>
   preprocess_text twi_conv rain_store ''acid rain'' ''agric'' ''ak'' =
     Inr (''<1>'', [(''<1>'', agric_term ''twi'' 1 ''acid rain'' ''A'')])"
proof -
  have ne: "get_terms_for_domain_lang twi_conv rain_store ''agric'' ''ak'' \<noteq> []"
    by code_simp
  have st: "sorted_terms (get_terms_for_domain_lang twi_conv rain_store ''agric'' ''ak'') =
     [agric_term ''twi'' 1 ''acid rain'' ''A'', agric_term ''twi'' 2 ''acid'' ''B'',
      agric_term ''twi'' 3 ''rain'' ''C'']"
    by code_simp
  have pp: "preprocess_text twi_conv rain_store ''acid rain'' ''agric'' ''ak'' =
     Inr (''<1>'', [(''<1>'', agric_term ''twi'' 1 ''acid rain'' ''A'')])"
    by code_simp
  show ?thesis
    using longest_term_first [of _ twi_conv rain_store "''agric''" "''ak''" "''acid rain''"] ne st pp
    by simp
qed

subsection \<open>Whole-word, case-insensitive matching\<close>




subsection \<open>Entries of the replacement map\<close>




end
